theory Spec2Isabelle
  imports Complex_Main "HOL-Library.Word" "HOL-Library.Multiset"
begin

section \<open>JavaScript values\<close>

text \<open>
  A JavaScript string is a sequence of UTF-16 code units, and \<open>length\<close> counts code
  units. String literals of the source are written with \<open>u16\<close> where they are ASCII and
  as explicit code units elsewhere (the code units are the ones stored in the source
  file).
\<close>

type_synonym jsstring = "16 word list"

definition u16 :: "string \<Rightarrow> jsstring" where
  "u16 s = map of_char s"

definition nl :: jsstring where
  "nl = [0x000A]"

text \<open>
  The lines of a template literal, each followed by its line break.
\<close>

definition template_lines :: "jsstring list \<Rightarrow> jsstring" where
  "template_lines ls = concat (map (\<lambda>l. l @ nl) ls)"

text \<open>
  The values \<open>express.json()\<close> and the query parser put into \<open>req.body\<close> and
  \<open>req.query\<close>: a field that is missing reads as \<open>undefined\<close>.
\<close>

datatype json =
    JUndefined
  | JNull
  | JBool bool
  | JNumber rat
  | JString jsstring
  | JArray "json list"
  | JObject "(jsstring \<times> json) list"

datatype js_type = T_undefined | T_object | T_boolean | T_number | T_string

fun typeof :: "json \<Rightarrow> js_type" where
  "typeof JUndefined = T_undefined"
| "typeof JNull = T_object"
| "typeof (JBool b) = T_boolean"
| "typeof (JNumber n) = T_number"
| "typeof (JString s) = T_string"
| "typeof (JArray xs) = T_object"
| "typeof (JObject kvs) = T_object"

text \<open>
  \<open>ToBoolean\<close>: \<open>!v\<close> holds exactly when \<open>truthy v\<close> does not.
\<close>

fun truthy :: "json \<Rightarrow> bool" where
  "truthy JUndefined = False"
| "truthy JNull = False"
| "truthy (JBool b) = b"
| "truthy (JNumber n) = (n \<noteq> 0)"
| "truthy (JString s) = (s \<noteq> [])"
| "truthy (JArray xs) = True"
| "truthy (JObject kvs) = True"

text \<open>
  The string held by a value; the handlers read it only after \<open>typeof v === "string"\<close>.
\<close>

fun string_of :: "json \<Rightarrow> jsstring" where
  "string_of (JString s) = s"
| "string_of _ = []"

text \<open>
  \<open>String.prototype.trim\<close> removes leading and trailing white space and line
  terminators.
\<close>

definition is_ws :: "16 word \<Rightarrow> bool" where
  "is_ws c \<longleftrightarrow>
     c \<in> set [0x0009, 0x000A, 0x000B, 0x000C, 0x000D, 0x0020, 0x00A0, 0x1680,
                0x2028, 0x2029, 0x202F, 0x205F, 0x3000, 0xFEFF]
     \<or> (0x2000 \<le> c \<and> c \<le> 0x200A)"

definition trim :: "jsstring \<Rightarrow> jsstring" where
  "trim s = rev (dropWhile is_ws (rev (dropWhile is_ws s)))"

text \<open>
  \<open>Array.prototype.join\<close> on an array of strings.
\<close>

fun join :: "jsstring \<Rightarrow> jsstring list \<Rightarrow> jsstring" where
  "join sep [] = []"
| "join sep [x] = x"
| "join sep (x # y # ys) = x @ sep @ join sep (y # ys)"

section \<open>Exceptions\<close>

text \<open>
  A computation that may throw returns \<open>Inl\<close> of the exception. \<open>try_catch\<close> is
  \<open>try { body } catch (err) { handler }\<close>.
\<close>

datatype exn =
    ValidationError
  | UniqueConstraintViolation
  | ForeignKeyViolation
  | ApiError jsstring

definition try_catch :: "exn + 'a \<Rightarrow> (exn \<Rightarrow> exn + 'a) \<Rightarrow> exn + 'a" where
  "try_catch body handler = (case body of Inl err \<Rightarrow> handler err | Inr v \<Rightarrow> Inr v)"

section \<open>The conversation store\<close>

text \<open>
  Modelled from the spec: the Prisma schema of the two tables is not among the sources.
  A Conversation has a server-generated unique identifier; a Message belongs to one
  Conversation that must exist at write time and carries the sender role, the text and a
  timestamp. Only the columns that the handlers read or write are kept (the column
  \<open>text\<close> is the field \<open>msg_text\<close>). The tables are lists in insertion order.
\<close>

record conversation =
  conv_id :: jsstring

record message_row =
  conversationId :: jsstring
  sender :: jsstring
  msg_text :: jsstring
  timestamp :: nat

record store =
  conversations :: "conversation list"
  messages :: "message_row list"

definition conversation_ids :: "store \<Rightarrow> jsstring set" where
  "conversation_ids st = set (map conv_id (conversations st))"

text \<open>
  \<open>prisma.conversation.create({ data: {} })\<close>. The identifier is generated by the store;
  \<open>new_id\<close> is the value generated for this call. An identifier that is already taken
  violates the uniqueness of the key.
\<close>

definition conversation_create :: "store \<Rightarrow> jsstring \<Rightarrow> exn + (conversation \<times> store)" where
  "conversation_create st new_id =
     (if new_id \<in> conversation_ids st then Inl UniqueConstraintViolation
      else (let c = \<lparr>conv_id = new_id\<rparr>
            in Inr (c, st\<lparr>conversations := conversations st @ [c]\<rparr>)))"

text \<open>
  \<open>prisma.conversation.findUnique({ where: { id } })\<close>. The column is a string column
  (the history handler filters on it with a string); the client library rejects a query
  whose \<open>id\<close> is not a string.
\<close>

definition conversation_findUnique :: "store \<Rightarrow> json \<Rightarrow> exn + conversation option" where
  "conversation_findUnique st ident =
     (case ident of
        JString s \<Rightarrow> Inr (find (\<lambda>c. conv_id c = s) (conversations st))
      | _ \<Rightarrow> Inl ValidationError)"

text \<open>
  \<open>prisma.message.create({ data })\<close>: the row is appended; the owning conversation must
  exist.
\<close>

definition message_create :: "store \<Rightarrow> message_row \<Rightarrow> exn + store" where
  "message_create st row =
     (if conversationId row \<in> conversation_ids st
      then Inr (st\<lparr>messages := messages st @ [row]\<rparr>)
      else Inl ForeignKeyViolation)"

text \<open>
  \<open>prisma.message.findMany({ where: { conversationId }, orderBy: { timestamp: "asc" },
  take })\<close>: the rows of the conversation in ascending order of timestamp (rows with equal
  timestamps in insertion order), cut to the first \<open>take\<close> rows when \<open>take\<close> is given.
\<close>

definition message_findMany :: "store \<Rightarrow> jsstring \<Rightarrow> nat option \<Rightarrow> message_row list" where
  "message_findMany st cid take_opt =
     (let rows = sort_key timestamp (filter (\<lambda>m. conversationId m = cid) (messages st))
      in case take_opt of None \<Rightarrow> rows | Some n \<Rightarrow> take n rows)"

text \<open>
  The state the tables are in between requests: identifiers are unique and not empty,
  and every message belongs to a conversation of the table.
\<close>

definition store_ok :: "store \<Rightarrow> bool" where
  "store_ok st \<longleftrightarrow>
     distinct (map conv_id (conversations st))
     \<and> [] \<notin> conversation_ids st
     \<and> (\<forall>m \<in> set (messages st). conversationId m \<in> conversation_ids st)"

section \<open>The reply generator\<close>

text \<open>
  The call \<open>genAI.models.generateContent({ model, contents })\<close>: it throws, or returns a
  result whose \<open>text\<close> is a string or \<open>undefined\<close>.
\<close>

record content =
  role :: jsstring
  parts :: "jsstring list"

record generate_request =
  model :: jsstring
  contents :: "content list"

type_synonym genai = "generate_request \<Rightarrow> exn + jsstring option"

text \<open>
  The three backends differ in the texts only: the FAQ, the instructions before it, the
  two labels and the two fallback replies.
\<close>

record reply_config =
  preamble :: jsstring
  faq :: jsstring
  user_label :: jsstring
  other_label :: jsstring
  no_text_fallback :: jsstring
  error_fallback :: jsstring

definition conversationText :: "reply_config \<Rightarrow> message_row list \<Rightarrow> jsstring" where
  "conversationText cfg history =
     join nl
       (map (\<lambda>m. (if sender m = u16 ''user'' then user_label cfg else other_label cfg)
                  @ u16 '': '' @ msg_text m)
          history)"

definition prompt :: "reply_config \<Rightarrow> message_row list \<Rightarrow> jsstring" where
  "prompt cfg history =
     preamble cfg @ faq cfg @ nl @ nl @ u16 ''Conversation:'' @ nl
     @ conversationText cfg history @ nl"

definition build_request :: "reply_config \<Rightarrow> message_row list \<Rightarrow> generate_request" where
  "build_request cfg history =
     \<lparr>model = u16 ''gemini-2.5-flash'',
      contents = [\<lparr>role = u16 ''user'', parts = [prompt cfg history]\<rparr>]\<rparr>"

definition generateReply :: "reply_config \<Rightarrow> genai \<Rightarrow> message_row list \<Rightarrow> exn + jsstring" where
  "generateReply cfg genAI history =
     try_catch
       (case genAI (build_request cfg history) of
          Inl err \<Rightarrow> Inl err
        | Inr result \<Rightarrow>
            Inr (case result of Some t \<Rightarrow> t | None \<Rightarrow> no_text_fallback cfg))
       (\<lambda>err. Inr (error_fallback cfg))"

subsection \<open>backend/src/server.ts\<close>

definition support_faq :: jsstring where
  "support_faq = nl @ template_lines
     [u16 ''Store Information:'',
      [],
      u16 ''Business:'',
      u16 ''- We are an online e-commerce store.'',
      u16 ''- This chat is for customer support only.'',
      [],
      u16 ''Shipping:'',
      u16 ''- We ship worldwide, including the USA.'',
      u16 ''- Delivery time: 5'' @ [0x00E2, 0x20AC, 0x201C] @ u16 ''10 business days.'',
      u16 ''- Tracking details are shared after shipment.'',
      [],
      u16 ''Returns & Refunds:'',
      u16 ''- 30-day return policy.'',
      u16 ''- Items must be unused and in original packaging.'',
      u16 ''- Refunds are processed within 5'' @ [0x00E2, 0x20AC, 0x201C] @ u16 ''7 business days after approval.'',
      [],
      u16 ''Orders:'',
      u16 ''- Orders can be canceled within 24 hours of placement.'',
      u16 ''- Orders cannot be canceled once shipped.'',
      [],
      u16 ''Support:'',
      u16 ''- Available Monday'' @ [0x00E2, 0x20AC, 0x201C] @ u16 ''Friday, 9 AM'' @ [0x00E2, 0x20AC, 0x201C] @ u16 ''6 PM.'',
      u16 ''- Contact via chat or email.'',
      [],
      u16 ''Rules:'',
      u16 ''- Only answer store-related questions.'',
      u16 ''- Do not guess or invent information.'',
      u16 ''- If a question is unrelated, politely refuse.'']"

definition support_preamble :: jsstring where
  "support_preamble = nl @ template_lines
     [u16 ''You are a customer support agent for an online store.'',
      u16 ''Answer ONLY using the information below.'',
      u16 ''Do NOT act as a general AI assistant.'',
      u16 ''Keep responses short, polite, and professional.'',
      []]"

definition support_config :: reply_config where
  "support_config =
     \<lparr>preamble = support_preamble,
      faq = support_faq,
      user_label = u16 ''Customer'',
      other_label = u16 ''Support'',
      no_text_fallback =
        u16 ''Sorry, I don'' @ [0x00E2, 0x20AC, 0x2122] @ u16 ''t have that information.'',
      error_fallback = u16 ''Sorry, something went wrong. Please try again.''\<rparr>"

definition generateSupportReply :: "genai \<Rightarrow> message_row list \<Rightarrow> exn + jsstring" where
  "generateSupportReply = generateReply support_config"

subsection \<open>unnamed/part_000\<close>

definition gemini_000_faq :: jsstring where
  "gemini_000_faq = nl @ template_lines
     [u16 ''Product FAQ '' @ [0x2014] @ u16 '' AI Productivity Assistant'',
      [],
      u16 ''About the Product:'',
      u16 ''- An AI-powered assistant for developers and students.'',
      u16 ''- Helps with coding, studying, planning, and idea generation.'',
      u16 ''- Works entirely online via web browser.'',
      [],
      u16 ''Key Features:'',
      u16 ''- Conversational AI with session memory.'',
      u16 ''- Code explanation, debugging, and optimization.'',
      u16 ''- Converts vague ideas into structured plans.'',
      u16 ''- Supports long technical explanations.'',
      u16 ''- Fast responses powered by Gemini AI.'',
      [],
      u16 ''Who Should Use This:'',
      u16 ''- Developers writing or learning code.'',
      u16 ''- Students preparing notes or understanding concepts.'',
      u16 ''- Startup founders brainstorming ideas.'',
      u16 ''- Professionals organizing tasks and workflows.'',
      [],
      u16 ''Pricing:'',
      u16 ''- Free plan with limited daily messages.'',
      u16 ''- Pro plan includes unlimited chats and priority speed.'',
      u16 ''- Monthly and yearly billing options available.'',
      [],
      u16 ''Privacy & Data:'',
      u16 ''- Chats are securely stored per session.'',
      u16 ''- No data is sold or shared.'',
      u16 ''- Users can request deletion of chat history.'',
      u16 ''- Conversations are not used to train public models.'',
      [],
      u16 ''Technical Info:'',
      u16 ''- Requires internet connection.'',
      u16 ''- Best used on Chrome, Firefox, or Edge.'',
      u16 ''- Markdown supported in replies.'',
      [],
      u16 ''Support:'',
      u16 ''- Monday'' @ [0x2013] @ u16 ''Friday, 9am'' @ [0x2013] @ u16 ''6pm IST.'',
      u16 ''- Email and in-app support available.'',
      u16 ''- Typical response time under 24 hours.'',
      [],
      u16 ''Refund Policy:'',
      u16 ''- 7-day refund window for Pro users.'',
      u16 ''- Refunds subject to fair usage.'']"

definition gemini_000_preamble :: jsstring where
  "gemini_000_preamble = nl @ template_lines
     [u16 ''You are a knowledgeable support agent for an AI productivity product.'',
      u16 ''Proactively explain features, benefits, and best use cases.'',
      u16 ''If the user seems unsure, suggest how the product can help them.'',
      u16 ''Keep responses friendly, concise, and clear.'',
      []]"

definition gemini_000_config :: reply_config where
  "gemini_000_config =
     \<lparr>preamble = gemini_000_preamble,
      faq = gemini_000_faq,
      user_label = u16 ''User'',
      other_label = u16 ''Agent'',
      no_text_fallback = u16 ''Sorry, I couldn't generate a response.'',
      error_fallback = u16 ''Sorry, there was an issue with the AI response.''\<rparr>"

definition generateGeminiReply_000 :: "genai \<Rightarrow> message_row list \<Rightarrow> exn + jsstring" where
  "generateGeminiReply_000 = generateReply gemini_000_config"

subsection \<open>unnamed/part_001\<close>

definition gemini_001_faq :: jsstring where
  "gemini_001_faq = nl @ template_lines
     [u16 ''Store FAQ:'',
      u16 ''- Shipping: We ship worldwide, including USA.'',
      u16 ''- Returns: 30-day return/refund policy.'',
      u16 ''- Support: Mon'' @ [0x00E2, 0x20AC, 0x201C] @ u16 ''Fri, 9am'' @ [0x00E2, 0x20AC, 0x201C] @ u16 ''6pm.'']"

definition gemini_001_preamble :: jsstring where
  "gemini_001_preamble = nl @ template_lines
     [u16 ''You are a helpful support agent for a small e-commerce store.'',
      u16 ''Answer clearly and concisely.'',
      []]"

definition gemini_001_config :: reply_config where
  "gemini_001_config =
     \<lparr>preamble = gemini_001_preamble,
      faq = gemini_001_faq,
      user_label = u16 ''User'',
      other_label = u16 ''Agent'',
      no_text_fallback = u16 ''No response from AI.'',
      error_fallback = u16 ''Sorry, there was an error with the AI agent.''\<rparr>"

definition generateGeminiReply_001 :: "genai \<Rightarrow> message_row list \<Rightarrow> exn + jsstring" where
  "generateGeminiReply_001 = generateReply gemini_001_config"

section \<open>The request handlers\<close>

record chat_request =
  message :: json
  sessionId :: json

datatype resp_body =
    ErrorBody jsstring
  | ReplyBody jsstring jsstring
  | MessagesBody "message_row list"

record response =
  status :: nat
  body :: resp_body

text \<open>
  What the runtime supplies while one request is handled: the identifier the store
  generates if a conversation is created, and the clock readings stored with the two
  message rows.
\<close>

record runtime =
  generated_id :: jsstring
  user_time :: nat
  ai_time :: nat

text \<open>
  The \<open>POST /chat/message\<close> handler from "SAVE USER MESSAGE" on, for the resolved
  conversation \<open>cid\<close> and the message \<open>txt\<close>. A throw leaves the rows written so far in
  place.
\<close>

definition save_and_reply ::
  "(message_row list \<Rightarrow> exn + jsstring) \<Rightarrow> runtime \<Rightarrow> store \<Rightarrow> jsstring \<Rightarrow> jsstring
     \<Rightarrow> (exn + response) \<times> store" where
  "save_and_reply generate rt st cid txt =
     (case message_create st
             \<lparr>conversationId = cid, sender = u16 ''user'',
              msg_text = txt, timestamp = user_time rt\<rparr> of
        Inl err \<Rightarrow> (Inl err, st)
      | Inr st1 \<Rightarrow>
          (let history = message_findMany st1 cid (Some 10)
           in case generate history of
                Inl err \<Rightarrow> (Inl err, st1)
              | Inr aiReply \<Rightarrow>
                  (case message_create st1
                          \<lparr>conversationId = cid, sender = u16 ''ai'',
                           msg_text = aiReply, timestamp = ai_time rt\<rparr> of
                     Inl err \<Rightarrow> (Inl err, st1)
                   | Inr st2 \<Rightarrow>
                       (Inr \<lparr>status = 200, body = ReplyBody aiReply cid\<rparr>, st2))))"

text \<open>
  The \<open>try\<close> block of the \<open>POST /chat/message\<close> handler; \<open>generate\<close> is the reply
  generator of the backend.
\<close>

definition post_chat_message_try ::
  "(message_row list \<Rightarrow> exn + jsstring) \<Rightarrow> runtime \<Rightarrow> store \<Rightarrow> chat_request
     \<Rightarrow> (exn + response) \<times> store" where
  "post_chat_message_try generate rt st req =
     (let message = message req; sessionId = sessionId req
      in if \<not> truthy message \<or> typeof message \<noteq> T_string
            \<or> \<not> truthy (JString (trim (string_of message)))
         then (Inr \<lparr>status = 400, body = ErrorBody (u16 ''Message cannot be empty.'')\<rparr>, st)
         else if length (string_of message) > 1000
         then (Inr \<lparr>status = 400,
                    body = ErrorBody (u16 ''Message too long (max 1000 chars).'')\<rparr>, st)
         else (let conversationId = sessionId
               in if \<not> truthy conversationId
                  then (case conversation_create st (generated_id rt) of
                          Inl err \<Rightarrow> (Inl err, st)
                        | Inr (conversation, st1) \<Rightarrow>
                            save_and_reply generate rt st1 (conv_id conversation)
                              (string_of message))
                  else (case conversation_findUnique st conversationId of
                          Inl err \<Rightarrow> (Inl err, st)
                        | Inr None \<Rightarrow>
                            (Inr \<lparr>status = 404,
                                  body = ErrorBody (u16 ''Conversation not found.'')\<rparr>, st)
                        | Inr (Some exists) \<Rightarrow>
                            save_and_reply generate rt st (string_of conversationId)
                              (string_of message))))"

text \<open>
  The whole handler: whatever the \<open>try\<close> block throws is answered with 500.
\<close>

definition post_chat_message ::
  "(message_row list \<Rightarrow> exn + jsstring) \<Rightarrow> runtime \<Rightarrow> store \<Rightarrow> chat_request
     \<Rightarrow> response \<times> store" where
  "post_chat_message generate rt st req =
     (case post_chat_message_try generate rt st req of
        (Inr res, st') \<Rightarrow> (res, st')
      | (Inl err, st') \<Rightarrow>
          (\<lparr>status = 500, body = ErrorBody (u16 ''Internal server error'')\<rparr>, st'))"

text \<open>
  The \<open>GET /chat/history\<close> handler on \<open>req.query.sessionId\<close>. It reads the store
  only.
\<close>

definition get_chat_history :: "store \<Rightarrow> json \<Rightarrow> response" where
  "get_chat_history st query_sessionId =
     (let sessionId = query_sessionId
      in if \<not> truthy sessionId \<or> typeof sessionId \<noteq> T_string
         then \<lparr>status = 400, body = ErrorBody (u16 ''sessionId is required.'')\<rparr>
         else \<lparr>status = 200,
               body = MessagesBody (message_findMany st (string_of sessionId) None)\<rparr>)"

section \<open>Example states\<close>

definition empty_store :: store where
  "empty_store = \<lparr>conversations = [], messages = []\<rparr>"

definition example_store :: store where
  "example_store =
     \<lparr>conversations = [\<lparr>conv_id = u16 ''c0''\<rparr>],
      messages =
        [\<lparr>conversationId = u16 ''c0'', sender = u16 ''user'', msg_text = u16 ''hi'',
          timestamp = 5\<rparr>,
         \<lparr>conversationId = u16 ''c0'', sender = u16 ''ai'', msg_text = u16 ''hello'',
          timestamp = 6\<rparr>]\<rparr>"

text \<open>
  A conversation that already holds ten messages, written at the times 1 to 10.
\<close>

definition ten_message_store :: store where
  "ten_message_store =
     \<lparr>conversations = [\<lparr>conv_id = u16 ''c0''\<rparr>],
      messages =
        map (\<lambda>t. \<lparr>conversationId = u16 ''c0'',
                   sender = (if odd t then u16 ''user'' else u16 ''ai''),
                   msg_text = u16 ''old'', timestamp = t\<rparr>)
          [1, 2, 3, 4, 5, 6, 7, 8, 9, 10]\<rparr>"

definition example_runtime :: runtime where
  "example_runtime = \<lparr>generated_id = u16 ''c1'', user_time = 1, ai_time = 2\<rparr>"

definition later_runtime :: runtime where
  "later_runtime = \<lparr>generated_id = u16 ''c1'', user_time = 11, ai_time = 12\<rparr>"

text \<open>
  An API whose every call throws, and a generator that answers with the text of the last
  message of the history it is given.
\<close>

definition failing_genAI :: genai where
  "failing_genAI request = Inl (ApiError (u16 ''unavailable''))"

definition echo_last :: "message_row list \<Rightarrow> exn + jsstring" where
  "echo_last history = Inr (msg_text (last history))"

text \<open>
  Two APIs that answer with what they are sent: the text of the prompt, and the name of
  the model.
\<close>

definition echo_prompt :: genai where
  "echo_prompt request = Inr (Some (concat (concat (map parts (contents request)))))"

definition echo_model :: genai where
  "echo_model request = Inr (Some (model request))"

text \<open>
  A message of the user whose text holds a line break, and the two messages it reads
  like.
\<close>

definition two_line_row :: message_row where
  "two_line_row =
     \<lparr>conversationId = u16 ''c0'', sender = u16 ''user'',
      msg_text = u16 ''a'' @ nl @ u16 ''Support: b'', timestamp = 5\<rparr>"

definition two_rows :: "message_row list" where
  "two_rows =
     [\<lparr>conversationId = u16 ''c0'', sender = u16 ''user'', msg_text = u16 ''a'',
       timestamp = 5\<rparr>,
      \<lparr>conversationId = u16 ''c0'', sender = u16 ''ai'', msg_text = u16 ''b'',
       timestamp = 6\<rparr>]"

section \<open>Lines of a text\<close>

text \<open>
  The lines of a string are the pieces between its line breaks, as \<open>split("\n")\<close>
  gives them; a string that ends with a line break has an empty last line.
\<close>

fun split_lines :: "jsstring \<Rightarrow> jsstring list" where
  "split_lines [] = [[]]"
| "split_lines (c # cs) =
     (if c = 0x000A then [] # split_lines cs
      else (case split_lines cs of
              [] \<Rightarrow> [[c]]
            | l # ls \<Rightarrow> (c # l) # ls))"

section \<open>Lemmas on the building blocks\<close>

lemma trim_Nil_iff: "trim s = [] \<longleftrightarrow> (\<forall>c \<in> set s. is_ws c)"
proof
  assume "trim s = []"
  then have a: "\<forall>c \<in> set (dropWhile is_ws s). is_ws c"
    by (simp add: trim_def)
  have "dropWhile is_ws s = []"
  proof (rule ccontr)
    assume n: "dropWhile is_ws s \<noteq> []"
    then have "\<not> is_ws (hd (dropWhile is_ws s))" by (rule hd_dropWhile)
    moreover have "hd (dropWhile is_ws s) \<in> set (dropWhile is_ws s)" using n by simp
    ultimately show False using a by blast
  qed
  then show "\<forall>c \<in> set s. is_ws c" by simp
next
  assume "\<forall>c \<in> set s. is_ws c"
  then have d: "dropWhile is_ws s = []" by simp
  show "trim s = []" unfolding trim_def d by simp
qed

lemma trim_not_Nil: "trim s \<noteq> [] \<Longrightarrow> s \<noteq> []"
  by (auto simp: trim_def)

lemma join_append_sep:
  "xs \<noteq> [] \<Longrightarrow> join sep xs @ sep = concat (map (\<lambda>x. x @ sep) xs)"
  by (induction sep xs rule: join.induct) simp_all

lemma insort_key_snoc:
  "f x \<le> f y \<Longrightarrow> insort_key f x (ys @ [y]) = insort_key f x ys @ [y]"
  by (induction ys) auto

lemma sort_key_snoc:
  "\<forall>x \<in> set xs. f x \<le> f y \<Longrightarrow> sort_key f (xs @ [y]) = sort_key f xs @ [y]"
proof (induction xs)
  case Nil
  then show ?case by simp
next
  case (Cons a xs)
  then have "sort_key f (xs @ [y]) = sort_key f xs @ [y]" by simp
  moreover have "f a \<le> f y" using Cons.prems by simp
  ultimately show ?case by (simp add: insort_key_snoc)
qed

lemma split_lines_line: "0x000A \<notin> set xs \<Longrightarrow> split_lines xs = [xs]"
  by (induction xs) auto

lemma split_lines_append_nl:
  "0x000A \<notin> set xs \<Longrightarrow> split_lines (xs @ 0x000A # ys) = xs # split_lines ys"
  by (induction xs) auto

lemma split_lines_concat:
  "\<forall>l \<in> set ls. 0x000A \<notin> set l \<Longrightarrow>
     split_lines (concat (map (\<lambda>l. l @ nl) ls)) = ls @ [[]]"
  by (induction ls) (simp_all add: nl_def split_lines_append_nl)

lemma colon_blank_no_nl: "0x000A \<notin> set (u16 '': '')"
  by (simp add: u16_def)

subsection \<open>The store\<close>

lemma conversation_ids_messages_update [simp]:
  "conversation_ids (st\<lparr>messages := ms\<rparr>) = conversation_ids st"
  by (simp add: conversation_ids_def)

lemma find_conversation_None:
  "find (\<lambda>c. conv_id c = s) (conversations st) = None \<longleftrightarrow> s \<notin> conversation_ids st"
  by (auto simp: find_None_iff conversation_ids_def)

lemma findUnique_known:
  "s \<in> conversation_ids st \<Longrightarrow> \<exists>c. conversation_findUnique st (JString s) = Inr (Some c)"
  using find_conversation_None [of s st]
  by (cases "find (\<lambda>c. conv_id c = s) (conversations st)")
    (auto simp: conversation_findUnique_def)

lemma findUnique_unknown:
  "s \<notin> conversation_ids st \<Longrightarrow> conversation_findUnique st (JString s) = Inr None"
  by (simp add: conversation_findUnique_def find_conversation_None)

lemma message_create_known:
  "conversationId row \<in> conversation_ids st \<Longrightarrow>
     message_create st row = Inr (st\<lparr>messages := messages st @ [row]\<rparr>)"
  by (simp add: message_create_def)

lemma findMany_conversations:
  "message_findMany (st'\<lparr>messages := ms\<rparr>) cid n = message_findMany (st\<lparr>messages := ms\<rparr>) cid n"
  by (simp add: message_findMany_def)

lemma findMany_all_sorted: "sorted (map timestamp (message_findMany st cid None))"
  by (simp add: message_findMany_def)

lemma findMany_all_mset:
  "mset (message_findMany st cid None) =
     mset (filter (\<lambda>m. conversationId m = cid) (messages st))"
  by (simp add: message_findMany_def)

lemma findMany_unknown:
  assumes "store_ok st" and "cid \<notin> conversation_ids st"
  shows "message_findMany st cid take_opt = []"
proof -
  have "filter (\<lambda>m. conversationId m = cid) (messages st) = []"
    using assms by (auto simp: store_ok_def filter_empty_conv)
  then show ?thesis by (simp add: message_findMany_def split: option.splits)
qed

subsection \<open>The generator and the handler\<close>

lemma generateReply_result:
  "generateReply cfg genAI history =
     Inr (case genAI (build_request cfg history) of
            Inl err \<Rightarrow> error_fallback cfg
          | Inr None \<Rightarrow> no_text_fallback cfg
          | Inr (Some t) \<Rightarrow> t)"
  by (simp add: generateReply_def try_catch_def split: sum.splits option.splits)

lemma save_and_reply_known:
  assumes "cid \<in> conversation_ids st"
    and "generate
           (message_findMany
              (st\<lparr>messages := messages st @
                    [\<lparr>conversationId = cid, sender = u16 ''user'', msg_text = txt,
                      timestamp = user_time rt\<rparr>]\<rparr>)
              cid (Some 10)) = Inr reply"
  shows "save_and_reply generate rt st cid txt =
    (Inr \<lparr>status = 200, body = ReplyBody reply cid\<rparr>,
     st\<lparr>messages := messages st @
        [\<lparr>conversationId = cid, sender = u16 ''user'', msg_text = txt,
          timestamp = user_time rt\<rparr>,
         \<lparr>conversationId = cid, sender = u16 ''ai'', msg_text = reply,
          timestamp = ai_time rt\<rparr>]\<rparr>)"
  using assms by (simp add: save_and_reply_def message_create_known)

lemma save_and_reply_conversations:
  "save_and_reply generate rt st cid txt = (r, st') \<Longrightarrow> conversations st' = conversations st"
  by (auto simp: save_and_reply_def message_create_def Let_def split: if_splits sum.splits)

lemma save_and_reply_status:
  "save_and_reply generate rt st cid txt = (Inr res, st') \<Longrightarrow>
     status res = 200 \<and> (\<exists>reply. body res = ReplyBody reply cid)"
  by (auto simp: save_and_reply_def message_create_def Let_def split: if_splits sum.splits)

lemma save_and_reply_store_ok:
  assumes "store_ok st" and "save_and_reply generate rt st cid txt = (r, st')"
  shows "store_ok st'"
  using assms
  by (auto simp: save_and_reply_def message_create_def Let_def store_ok_def
      split: if_splits sum.splits)

text \<open>
  The handler keeps the tables well formed, as long as the store generates identifiers
  that are not empty.
\<close>

lemma post_chat_message_store_ok:
  assumes "store_ok st" and "generated_id rt \<noteq> []"
    and "post_chat_message generate rt st req = (res, st')"
  shows "store_ok st'"
proof -
  obtain r where r: "post_chat_message_try generate rt st req = (r, st')"
    using assms(3) by (auto simp: post_chat_message_def split: prod.splits sum.splits)
  have new: "store_ok (st\<lparr>conversations := conversations st @ [\<lparr>conv_id = generated_id rt\<rparr>]\<rparr>)"
    if "generated_id rt \<notin> conversation_ids st"
    using that assms(1,2) by (auto simp: store_ok_def conversation_ids_def)
  show ?thesis
    using r assms(1) new save_and_reply_store_ok
    by (auto simp: post_chat_message_try_def conversation_create_def Let_def
        split: if_splits sum.splits option.splits)
qed

subsection \<open>The example states\<close>

lemma hi_valid:
  "trim (u16 ''hi'') \<noteq> []" "length (u16 ''hi'') \<le> 1000" "u16 ''hi'' \<noteq> []"
  "\<not> 1000 < length (u16 ''hi'')"
  by (simp_all add: trim_def u16_def is_ws_def)

lemma new_valid:
  "trim (u16 ''new'') \<noteq> []" "length (u16 ''new'') \<le> 1000" "u16 ''new'' \<noteq> []"
  "\<not> 1000 < length (u16 ''new'')"
  by (simp_all add: trim_def u16_def is_ws_def)

lemma c0_not_empty: "u16 ''c0'' \<noteq> []"
  by (simp add: u16_def)

lemma c0_known: "u16 ''c0'' \<in> conversation_ids ten_message_store"
  by (simp add: ten_message_store_def conversation_ids_def)

lemma c1_fresh: "generated_id example_runtime \<notin> conversation_ids empty_store"
  by (simp add: empty_store_def conversation_ids_def)

lemma example_store_ids: "conversation_ids example_store = {u16 ''c0''}"
  by (simp add: example_store_def conversation_ids_def)

lemma example_store_ok: "store_ok example_store"
  by (simp add: store_ok_def example_store_def conversation_ids_def u16_def)

lemma zz_unknown: "u16 ''zz'' \<notin> conversation_ids example_store" "u16 ''zz'' \<noteq> []"
  by (simp_all add: example_store_ids) (simp_all add: u16_def)

section \<open>The history handed to the reply generator\<close>

text \<open>
  C1. The handler loads the history with \<open>orderBy: { timestamp: "asc" }\<close> and
  \<open>take: 10\<close>, under the comment "FETCH LAST 10 MESSAGES". Ascending order cut to ten
  rows keeps the ten oldest rows: once a conversation holds ten messages, all of them
  older than the row being saved, the history read after the save is the history read
  before it, and the row just saved is not part of it.
\<close>

theorem just_saved_message_is_dropped:
  assumes "10 \<le> length (filter (\<lambda>m. conversationId m = cid) (messages st))"
    and "\<forall>m \<in> set (messages st). conversationId m = cid \<longrightarrow> timestamp m < timestamp new"
    and "conversationId new = cid"
    and "message_create st new = Inr st1"
  shows "message_findMany st1 cid (Some 10) = message_findMany st cid (Some 10)
         \<and> new \<notin> set (message_findMany st1 cid (Some 10))"
proof -
  let ?old = "filter (\<lambda>m. conversationId m = cid) (messages st)"
  have st1: "messages st1 = messages st @ [new]"
    using assms(4) by (auto simp: message_create_def split: if_splits)
  have le: "\<forall>m \<in> set ?old. timestamp m \<le> timestamp new"
    using assms(2) by auto
  have "sort_key timestamp (?old @ [new]) = sort_key timestamp ?old @ [new]"
    using le by (rule sort_key_snoc)
  then have eq: "message_findMany st1 cid (Some 10) = message_findMany st cid (Some 10)"
    using assms(1,3) st1 by (simp add: message_findMany_def)
  have "set (message_findMany st cid (Some 10)) \<subseteq> set ?old"
    by (auto simp: message_findMany_def dest: in_set_takeD)
  then have "new \<notin> set (message_findMany st cid (Some 10))"
    using assms(2) by auto
  with eq show ?thesis by simp
qed

text \<open>
  The eleventh message of a conversation, posted through the handler with a generator
  that answers with the text of the last message of its history: the answer is the text
  of the tenth message, not the text just posted, although the row was saved.
\<close>

theorem just_saved_message_is_dropped_witness:
  "post_chat_message echo_last later_runtime ten_message_store
      \<lparr>message = JString (u16 ''new''), sessionId = JString (u16 ''c0'')\<rparr> =
     (\<lparr>status = 200, body = ReplyBody (u16 ''old'') (u16 ''c0'')\<rparr>,
      ten_message_store
        \<lparr>messages := messages ten_message_store @
           [\<lparr>conversationId = u16 ''c0'', sender = u16 ''user'', msg_text = u16 ''new'',
             timestamp = 11\<rparr>,
            \<lparr>conversationId = u16 ''c0'', sender = u16 ''ai'', msg_text = u16 ''old'',
             timestamp = 12\<rparr>]\<rparr>)"
proof -
  let ?new = "\<lparr>conversationId = u16 ''c0'', sender = u16 ''user'', msg_text = u16 ''new'',
             timestamp = 11\<rparr>"
  let ?st1 = "ten_message_store\<lparr>messages := messages ten_message_store @ [?new]\<rparr>"
  have create: "message_create ten_message_store ?new = Inr ?st1"
    using c0_known by (simp add: message_create_def)
  have ten:
    "10 \<le> length (filter (\<lambda>m. conversationId m = u16 ''c0'') (messages ten_message_store))"
    by (simp add: ten_message_store_def)
  have older: "\<forall>m \<in> set (messages ten_message_store).
      conversationId m = u16 ''c0'' \<longrightarrow> timestamp m < timestamp ?new"
    by (simp add: ten_message_store_def)
  have "message_findMany ?st1 (u16 ''c0'') (Some 10)
          = message_findMany ten_message_store (u16 ''c0'') (Some 10)"
    using just_saved_message_is_dropped [OF ten older _ create] by simp
  also have "\<dots> = messages ten_message_store"
    by (simp add: message_findMany_def ten_message_store_def)
  finally have history:
    "message_findMany ?st1 (u16 ''c0'') (Some 10) = messages ten_message_store" .
  have last: "msg_text (last (messages ten_message_store)) = u16 ''old''"
    by (simp add: ten_message_store_def)
  have known: "conversation_findUnique ten_message_store (JString (u16 ''c0''))
      = Inr (Some \<lparr>conv_id = u16 ''c0''\<rparr>)"
    by (simp add: conversation_findUnique_def ten_message_store_def)
  have "save_and_reply echo_last later_runtime ten_message_store (u16 ''c0'') (u16 ''new'') =
     (Inr \<lparr>status = 200, body = ReplyBody (u16 ''old'') (u16 ''c0'')\<rparr>,
      ten_message_store
        \<lparr>messages := messages ten_message_store @
           [?new, \<lparr>conversationId = u16 ''c0'', sender = u16 ''ai'', msg_text = u16 ''old'',
             timestamp = 12\<rparr>]\<rparr>)"
    using c0_known history last
    by (simp add: save_and_reply_def message_create_def later_runtime_def echo_last_def)
  then show ?thesis
    using known new_valid c0_not_empty
    by (simp add: post_chat_message_def post_chat_message_try_def Let_def)
qed

section \<open>Validation of the message\<close>

text \<open>
  C2. A message that is the empty string, consists of white space only, or is longer
  than 1000 code units is answered with 400 and the store is left as it was. The error
  is "Message cannot be empty." when the message is empty or white space only (whatever
  its length) and "Message too long (max 1000 chars)." otherwise.
\<close>

theorem invalid_message_is_rejected:
  assumes "message req = JString s"
    and "s = [] \<or> (\<forall>c \<in> set s. is_ws c) \<or> length s > 1000"
  shows "post_chat_message generate rt st req =
           (\<lparr>status = 400,
             body = ErrorBody (if \<forall>c \<in> set s. is_ws c then u16 ''Message cannot be empty.''
                               else u16 ''Message too long (max 1000 chars).'')\<rparr>, st)"
proof (cases "\<forall>c \<in> set s. is_ws c")
  case True
  then have "trim s = []" by (simp add: trim_Nil_iff)
  with True assms(1) show ?thesis
    by (simp add: post_chat_message_def post_chat_message_try_def)
next
  case False
  then have t: "trim s \<noteq> []" by (simp add: trim_Nil_iff)
  from False assms(2) have "length s > 1000" and "s \<noteq> []" by auto
  with t assms(1) show ?thesis
    by (simp add: post_chat_message_def post_chat_message_try_def Let_def False)
qed

text \<open>
  The empty string, a blank and a tab, and 1001 times the letter a.
\<close>

theorem invalid_message_is_rejected_witness:
  "post_chat_message (generateSupportReply failing_genAI) example_runtime empty_store
      \<lparr>message = JString [], sessionId = JUndefined\<rparr> =
     (\<lparr>status = 400, body = ErrorBody (u16 ''Message cannot be empty.'')\<rparr>, empty_store)
   \<and> post_chat_message (generateSupportReply failing_genAI) example_runtime empty_store
      \<lparr>message = JString [0x0020, 0x0009], sessionId = JUndefined\<rparr> =
     (\<lparr>status = 400, body = ErrorBody (u16 ''Message cannot be empty.'')\<rparr>, empty_store)
   \<and> post_chat_message (generateSupportReply failing_genAI) example_runtime empty_store
      \<lparr>message = JString (replicate 1001 0x0061), sessionId = JUndefined\<rparr> =
     (\<lparr>status = 400, body = ErrorBody (u16 ''Message too long (max 1000 chars).'')\<rparr>,
      empty_store)"
  using
    invalid_message_is_rejected [of "\<lparr>message = JString [], sessionId = JUndefined\<rparr>" "[]"
      "generateSupportReply failing_genAI" example_runtime empty_store]
    invalid_message_is_rejected [of
      "\<lparr>message = JString [0x0020, 0x0009], sessionId = JUndefined\<rparr>"
      "[0x0020, 0x0009]" "generateSupportReply failing_genAI" example_runtime empty_store]
    invalid_message_is_rejected [of
      "\<lparr>message = JString (replicate 1001 0x0061), sessionId = JUndefined\<rparr>"
      "replicate 1001 0x0061" "generateSupportReply failing_genAI" example_runtime empty_store]
  by (simp add: is_ws_def)

text \<open>
  C10. A message that is not a string (a number, an array, an object, \<open>null\<close>, a missing
  field) is answered with 400 and "Message cannot be empty."; the store is left as it
  was.
\<close>

theorem non_string_message_is_rejected:
  assumes "typeof (message req) \<noteq> T_string"
  shows "post_chat_message generate rt st req =
           (\<lparr>status = 400, body = ErrorBody (u16 ''Message cannot be empty.'')\<rparr>, st)"
  using assms by (simp add: post_chat_message_def post_chat_message_try_def)

theorem non_string_message_is_rejected_witness:
  "post_chat_message (generateSupportReply failing_genAI) example_runtime empty_store
      \<lparr>message = JNumber 42, sessionId = JUndefined\<rparr> =
     (\<lparr>status = 400, body = ErrorBody (u16 ''Message cannot be empty.'')\<rparr>, empty_store)
   \<and> post_chat_message (generateSupportReply failing_genAI) example_runtime empty_store
      \<lparr>message = JArray [JString (u16 ''hi'')], sessionId = JUndefined\<rparr> =
     (\<lparr>status = 400, body = ErrorBody (u16 ''Message cannot be empty.'')\<rparr>, empty_store)
   \<and> post_chat_message (generateSupportReply failing_genAI) example_runtime empty_store
      \<lparr>message = JObject [(u16 ''a'', JNull)], sessionId = JUndefined\<rparr> =
     (\<lparr>status = 400, body = ErrorBody (u16 ''Message cannot be empty.'')\<rparr>, empty_store)"
  using
    non_string_message_is_rejected [of "\<lparr>message = JNumber 42, sessionId = JUndefined\<rparr>"
      "generateSupportReply failing_genAI" example_runtime empty_store]
    non_string_message_is_rejected [of
      "\<lparr>message = JArray [JString (u16 ''hi'')], sessionId = JUndefined\<rparr>"
      "generateSupportReply failing_genAI" example_runtime empty_store]
    non_string_message_is_rejected [of
      "\<lparr>message = JObject [(u16 ''a'', JNull)], sessionId = JUndefined\<rparr>"
      "generateSupportReply failing_genAI" example_runtime empty_store]
  by simp

section \<open>Resolution of the session\<close>

text \<open>
  C3, as stated, for every supplied session identifier that references no conversation:
  it fails for the empty string. The handler tests \<open>!conversationId\<close>, so an empty
  identifier is not looked up; a conversation is created, two rows are written and the
  answer is 200.
\<close>

theorem empty_session_is_not_looked_up:
  "JString [] = sessionId \<lparr>message = JString (u16 ''hi''), sessionId = JString []\<rparr>
   \<and> [] \<notin> conversation_ids empty_store
   \<and> post_chat_message (generateSupportReply failing_genAI) example_runtime empty_store
        \<lparr>message = JString (u16 ''hi''), sessionId = JString []\<rparr> =
      (\<lparr>status = 200,
        body = ReplyBody (u16 ''Sorry, something went wrong. Please try again.'') (u16 ''c1'')\<rparr>,
       \<lparr>conversations = [\<lparr>conv_id = u16 ''c1''\<rparr>],
        messages =
          [\<lparr>conversationId = u16 ''c1'', sender = u16 ''user'', msg_text = u16 ''hi'',
            timestamp = 1\<rparr>,
           \<lparr>conversationId = u16 ''c1'', sender = u16 ''ai'',
            msg_text = u16 ''Sorry, something went wrong. Please try again.'',
            timestamp = 2\<rparr>]\<rparr>)"
  by (simp add: post_chat_message_def post_chat_message_try_def save_and_reply_def
      conversation_create_def message_create_def conversation_ids_def empty_store_def
      example_runtime_def generateSupportReply_def generateReply_def try_catch_def
      failing_genAI_def support_config_def hi_valid Let_def)

text \<open>
  C3, amended: a valid message with a session identifier that is a string, is not empty
  and references no conversation is answered with 404 and "Conversation not found.", and
  the store is left as it was: no conversation and no message is created.
\<close>

theorem unknown_session_is_not_found:
  assumes "message req = JString m" and "trim m \<noteq> []" and "length m \<le> 1000"
    and "sessionId req = JString s" and "s \<noteq> []" and "s \<notin> conversation_ids st"
  shows "post_chat_message generate rt st req =
           (\<lparr>status = 404, body = ErrorBody (u16 ''Conversation not found.'')\<rparr>, st)"
proof -
  have "m \<noteq> []" using assms(2) by (rule trim_not_Nil)
  then show ?thesis using assms
    by (simp add: post_chat_message_def post_chat_message_try_def findUnique_unknown)
qed

theorem unknown_session_is_not_found_witness:
  "u16 ''zz'' \<notin> conversation_ids example_store
   \<and> post_chat_message (generateSupportReply failing_genAI) example_runtime example_store
      \<lparr>message = JString (u16 ''hi''), sessionId = JString (u16 ''zz'')\<rparr> =
     (\<lparr>status = 404, body = ErrorBody (u16 ''Conversation not found.'')\<rparr>, example_store)"
  using
    unknown_session_is_not_found [of
      "\<lparr>message = JString (u16 ''hi''), sessionId = JString (u16 ''zz'')\<rparr>" "u16 ''hi''"
      "u16 ''zz''" example_store "generateSupportReply failing_genAI" example_runtime]
    zz_unknown hi_valid
  by simp

text \<open>
  C9. A valid message whose session identifier is falsy (the empty string, \<open>null\<close>,
  \<open>0\<close>, \<open>false\<close>, a missing field) is treated as a message without a session: the
  conversation generated by the store is appended to the table and the answer is 200
  with its identifier. The identifier generated is one the table does not hold yet.
\<close>

theorem falsy_session_creates_conversation:
  assumes "message req = JString m" and "trim m \<noteq> []" and "length m \<le> 1000"
    and "\<not> truthy (sessionId req)"
    and "generated_id rt \<notin> conversation_ids st"
  shows "\<exists>reply st'.
           post_chat_message (generateReply cfg genAI) rt st req =
             (\<lparr>status = 200, body = ReplyBody reply (generated_id rt)\<rparr>, st')
           \<and> conversations st' = conversations st @ [\<lparr>conv_id = generated_id rt\<rparr>]"
proof -
  have m: "m \<noteq> []" using assms(2) by (rule trim_not_Nil)
  let ?st1 = "st\<lparr>conversations := conversations st @ [\<lparr>conv_id = generated_id rt\<rparr>]\<rparr>"
  have ids: "generated_id rt \<in> conversation_ids ?st1" by (simp add: conversation_ids_def)
  obtain reply where r:
    "generateReply cfg genAI
       (message_findMany
          (?st1\<lparr>messages := messages ?st1 @
                  [\<lparr>conversationId = generated_id rt, sender = u16 ''user'', msg_text = m,
                    timestamp = user_time rt\<rparr>]\<rparr>)
          (generated_id rt) (Some 10)) = Inr reply"
    using generateReply_result by blast
  show ?thesis
    using assms m save_and_reply_known [where generate = "generateReply cfg genAI", OF ids r]
    by (simp add: post_chat_message_def post_chat_message_try_def conversation_create_def
        Let_def)
qed

theorem falsy_session_creates_conversation_witness:
  "\<not> truthy (JString []) \<and> \<not> truthy JNull \<and> \<not> truthy (JNumber 0) \<and> \<not> truthy (JBool False)
   \<and> (\<exists>reply st'.
         post_chat_message (generateReply support_config failing_genAI) example_runtime
           empty_store \<lparr>message = JString (u16 ''hi''), sessionId = JNull\<rparr> =
           (\<lparr>status = 200, body = ReplyBody reply (u16 ''c1'')\<rparr>, st')
         \<and> conversations st' = [\<lparr>conv_id = u16 ''c1''\<rparr>])
   \<and> (\<exists>reply st'.
         post_chat_message (generateReply support_config failing_genAI) example_runtime
           empty_store \<lparr>message = JString (u16 ''hi''), sessionId = JNumber 0\<rparr> =
           (\<lparr>status = 200, body = ReplyBody reply (u16 ''c1'')\<rparr>, st')
         \<and> conversations st' = [\<lparr>conv_id = u16 ''c1''\<rparr>])"
proof -
  have g: "generated_id example_runtime = u16 ''c1''" "conversations empty_store = []"
    by (simp_all add: example_runtime_def empty_store_def)
  show ?thesis
    using
      falsy_session_creates_conversation [of
        "\<lparr>message = JString (u16 ''hi''), sessionId = JNull\<rparr>"
        "u16 ''hi''" example_runtime empty_store support_config failing_genAI]
      falsy_session_creates_conversation [of
        "\<lparr>message = JString (u16 ''hi''), sessionId = JNumber 0\<rparr>"
        "u16 ''hi''" example_runtime empty_store support_config failing_genAI]
      hi_valid c1_fresh
    by (simp add: g)
qed

text \<open>
  C6. When a request that supplies the identifier of an existing conversation is
  answered with 200, the answer carries the identifier that was supplied, and the table
  of conversations is the one before the request.
\<close>

theorem known_session_is_kept:
  assumes "post_chat_message generate rt st req = (res, st')" and "status res = 200"
    and "sessionId req = JString s" and "s \<in> conversation_ids st" and "store_ok st"
  shows "(\<exists>reply. body res = ReplyBody reply s) \<and> conversations st' = conversations st"
proof -
  have s: "s \<noteq> []" using assms(4,5) by (auto simp: store_ok_def)
  obtain c where c: "conversation_findUnique st (JString s) = Inr (Some c)"
    using findUnique_known [OF assms(4)] by blast
  have valid:
    "\<not> (\<not> truthy (message req) \<or> typeof (message req) \<noteq> T_string
          \<or> \<not> truthy (JString (trim (string_of (message req)))))"
    "\<not> length (string_of (message req)) > 1000"
    using assms(1,2)
    by (auto simp: post_chat_message_def post_chat_message_try_def Let_def split: if_splits)
  obtain r where r: "save_and_reply generate rt st s (string_of (message req)) = (r, st')"
    and res: "r = Inr res"
    using assms(1,2,3) s c valid
    by (auto simp: post_chat_message_def post_chat_message_try_def Let_def
        split: sum.splits prod.splits)
  show ?thesis using save_and_reply_status save_and_reply_conversations r res by blast
qed

theorem known_session_is_kept_witness:
  "store_ok example_store
   \<and> u16 ''c0'' \<in> conversation_ids example_store
   \<and> post_chat_message (generateSupportReply failing_genAI) later_runtime example_store
        \<lparr>message = JString (u16 ''hi''), sessionId = JString (u16 ''c0'')\<rparr> =
      (\<lparr>status = 200,
        body = ReplyBody (u16 ''Sorry, something went wrong. Please try again.'') (u16 ''c0'')\<rparr>,
       example_store
         \<lparr>messages := messages example_store @
            [\<lparr>conversationId = u16 ''c0'', sender = u16 ''user'', msg_text = u16 ''hi'',
              timestamp = 11\<rparr>,
             \<lparr>conversationId = u16 ''c0'', sender = u16 ''ai'',
              msg_text = u16 ''Sorry, something went wrong. Please try again.'',
              timestamp = 12\<rparr>]\<rparr>)"
proof -
  let ?req = "\<lparr>message = JString (u16 ''hi''), sessionId = JString (u16 ''c0'')\<rparr>"
  let ?R = "post_chat_message (generateSupportReply failing_genAI) later_runtime example_store ?req"
  have known: "u16 ''c0'' \<in> conversation_ids example_store"
    by (simp add: example_store_ids)
  have find: "conversation_findUnique example_store (JString (u16 ''c0''))
      = Inr (Some \<lparr>conv_id = u16 ''c0''\<rparr>)"
    by (simp add: conversation_findUnique_def example_store_def)
  have run: "?R =
      (\<lparr>status = 200,
        body = ReplyBody (u16 ''Sorry, something went wrong. Please try again.'') (u16 ''c0'')\<rparr>,
       example_store
         \<lparr>messages := messages example_store @
            [\<lparr>conversationId = u16 ''c0'', sender = u16 ''user'', msg_text = u16 ''hi'',
              timestamp = 11\<rparr>,
             \<lparr>conversationId = u16 ''c0'', sender = u16 ''ai'',
              msg_text = u16 ''Sorry, something went wrong. Please try again.'',
              timestamp = 12\<rparr>]\<rparr>)"
    using find known hi_valid c0_not_empty
    by (simp add: post_chat_message_def post_chat_message_try_def save_and_reply_def
        message_create_def later_runtime_def generateSupportReply_def generateReply_def
        try_catch_def failing_genAI_def support_config_def Let_def)
  have "(\<exists>reply. body (fst ?R) = ReplyBody reply (u16 ''c0''))
        \<and> conversations (snd ?R) = conversations example_store"
    using known_session_is_kept [of "generateSupportReply failing_genAI" later_runtime
        example_store ?req "fst ?R" "snd ?R" "u16 ''c0''"] known example_store_ok run
    by simp
  then show ?thesis using run known example_store_ok by simp
qed

section \<open>A failing model call\<close>

text \<open>
  C7. A valid message, with a session that resolves (a falsy identifier and a generated
  identifier that is new, or the identifier of an existing conversation \<open>cid\<close>), whose
  call of the external API throws: the answer is 200, the reply is the fallback of the
  backend, and the store afterwards holds the message of the user and the fallback reply
  with sender "ai" as the last two rows, both of the conversation \<open>cid\<close>.
\<close>

theorem fallback_reply_is_persisted:
  assumes "message req = JString m" and "trim m \<noteq> []" and "length m \<le> 1000"
    and "if truthy (sessionId req)
         then sessionId req = JString cid \<and> cid \<in> conversation_ids st
         else cid = generated_id rt \<and> cid \<notin> conversation_ids st"
    and "user_row = \<lparr>conversationId = cid, sender = u16 ''user'', msg_text = m,
                      timestamp = user_time rt\<rparr>"
    and "ai_row = \<lparr>conversationId = cid, sender = u16 ''ai'', msg_text = error_fallback cfg,
                    timestamp = ai_time rt\<rparr>"
    and "genAI (build_request cfg
                  (message_findMany (st\<lparr>messages := messages st @ [user_row]\<rparr>) cid (Some 10)))
           = Inl err"
  shows "post_chat_message (generateReply cfg genAI) rt st req =
           (\<lparr>status = 200, body = ReplyBody (error_fallback cfg) cid\<rparr>,
            st\<lparr>conversations :=
                   (if truthy (sessionId req) then conversations st
                    else conversations st @ [\<lparr>conv_id = cid\<rparr>]),
                messages := messages st @ [user_row, ai_row]\<rparr>)"
proof -
  have m: "m \<noteq> []" using assms(2) by (rule trim_not_Nil)
  show ?thesis
  proof (cases "truthy (sessionId req)")
    case True
    then have sid: "sessionId req = JString cid" and known: "cid \<in> conversation_ids st"
      using assms(4) by simp_all
    obtain c where c: "conversation_findUnique st (JString cid) = Inr (Some c)"
      using findUnique_known [OF known] by blast
    have r: "generateReply cfg genAI
               (message_findMany
                  (st\<lparr>messages := messages st @
                        [\<lparr>conversationId = cid, sender = u16 ''user'', msg_text = m,
                          timestamp = user_time rt\<rparr>]\<rparr>)
                  cid (Some 10)) = Inr (error_fallback cfg)"
      using assms(5,7) by (simp add: generateReply_result)
    show ?thesis
      using True sid c m assms(1,2,3,5,6)
        save_and_reply_known [where generate = "generateReply cfg genAI", OF known r]
      by (simp add: post_chat_message_def post_chat_message_try_def Let_def)
  next
    case False
    then have cid: "cid = generated_id rt" and fresh: "generated_id rt \<notin> conversation_ids st"
      using assms(4) by auto
    let ?st1 = "st\<lparr>conversations := conversations st @ [\<lparr>conv_id = generated_id rt\<rparr>]\<rparr>"
    have known: "generated_id rt \<in> conversation_ids ?st1" by (simp add: conversation_ids_def)
    have r: "generateReply cfg genAI
               (message_findMany
                  (?st1\<lparr>messages := messages ?st1 @
                          [\<lparr>conversationId = generated_id rt, sender = u16 ''user'',
                            msg_text = m, timestamp = user_time rt\<rparr>]\<rparr>)
                  (generated_id rt) (Some 10)) = Inr (error_fallback cfg)"
      using assms(5,7) cid findMany_conversations [where st' = ?st1 and st = st]
      by (simp add: generateReply_result)
    show ?thesis
      using False cid fresh m assms(1,2,3,5,6)
        save_and_reply_known [where generate = "generateReply cfg genAI", OF known r]
      by (simp add: post_chat_message_def post_chat_message_try_def conversation_create_def
          Let_def)
  qed
qed

text \<open>
  A message into the existing conversation of the example store, and a first message into
  the empty store.
\<close>

theorem fallback_reply_is_persisted_witness:
  "post_chat_message (generateReply support_config failing_genAI) later_runtime example_store
      \<lparr>message = JString (u16 ''hi''), sessionId = JString (u16 ''c0'')\<rparr> =
     (\<lparr>status = 200,
       body = ReplyBody (u16 ''Sorry, something went wrong. Please try again.'') (u16 ''c0'')\<rparr>,
      example_store
        \<lparr>messages := messages example_store @
           [\<lparr>conversationId = u16 ''c0'', sender = u16 ''user'', msg_text = u16 ''hi'',
             timestamp = 11\<rparr>,
            \<lparr>conversationId = u16 ''c0'', sender = u16 ''ai'',
             msg_text = u16 ''Sorry, something went wrong. Please try again.'',
             timestamp = 12\<rparr>]\<rparr>)
   \<and> post_chat_message (generateReply support_config failing_genAI) example_runtime empty_store
      \<lparr>message = JString (u16 ''hi''), sessionId = JUndefined\<rparr> =
     (\<lparr>status = 200,
       body = ReplyBody (u16 ''Sorry, something went wrong. Please try again.'') (u16 ''c1'')\<rparr>,
      \<lparr>conversations = [\<lparr>conv_id = u16 ''c1''\<rparr>],
       messages =
           [\<lparr>conversationId = u16 ''c1'', sender = u16 ''user'', msg_text = u16 ''hi'',
             timestamp = 1\<rparr>,
            \<lparr>conversationId = u16 ''c1'', sender = u16 ''ai'',
             msg_text = u16 ''Sorry, something went wrong. Please try again.'',
             timestamp = 2\<rparr>]\<rparr>)"
proof -
  have known: "u16 ''c0'' \<in> conversation_ids example_store"
    by (simp add: example_store_ids)
  have fb: "error_fallback support_config = u16 ''Sorry, something went wrong. Please try again.''"
    by (simp add: support_config_def)
  have a: "post_chat_message (generateReply support_config failing_genAI) later_runtime example_store
      \<lparr>message = JString (u16 ''hi''), sessionId = JString (u16 ''c0'')\<rparr> =
     (\<lparr>status = 200,
       body = ReplyBody (u16 ''Sorry, something went wrong. Please try again.'') (u16 ''c0'')\<rparr>,
      example_store
        \<lparr>messages := messages example_store @
           [\<lparr>conversationId = u16 ''c0'', sender = u16 ''user'', msg_text = u16 ''hi'',
             timestamp = 11\<rparr>,
            \<lparr>conversationId = u16 ''c0'', sender = u16 ''ai'',
             msg_text = u16 ''Sorry, something went wrong. Please try again.'',
             timestamp = 12\<rparr>]\<rparr>)"
    using fallback_reply_is_persisted [of
        "\<lparr>message = JString (u16 ''hi''), sessionId = JString (u16 ''c0'')\<rparr>" "u16 ''hi''"
        "u16 ''c0''" example_store later_runtime
        "\<lparr>conversationId = u16 ''c0'', sender = u16 ''user'', msg_text = u16 ''hi'',
             timestamp = 11\<rparr>"
        "\<lparr>conversationId = u16 ''c0'', sender = u16 ''ai'',
             msg_text = u16 ''Sorry, something went wrong. Please try again.'',
             timestamp = 12\<rparr>" support_config failing_genAI "ApiError (u16 ''unavailable'')"]
      hi_valid known c0_not_empty
    by (simp add: fb later_runtime_def failing_genAI_def)
  have b: "post_chat_message (generateReply support_config failing_genAI) example_runtime empty_store
      \<lparr>message = JString (u16 ''hi''), sessionId = JUndefined\<rparr> =
     (\<lparr>status = 200,
       body = ReplyBody (u16 ''Sorry, something went wrong. Please try again.'') (u16 ''c1'')\<rparr>,
      \<lparr>conversations = [\<lparr>conv_id = u16 ''c1''\<rparr>],
       messages =
           [\<lparr>conversationId = u16 ''c1'', sender = u16 ''user'', msg_text = u16 ''hi'',
             timestamp = 1\<rparr>,
            \<lparr>conversationId = u16 ''c1'', sender = u16 ''ai'',
             msg_text = u16 ''Sorry, something went wrong. Please try again.'',
             timestamp = 2\<rparr>]\<rparr>)"
    using fallback_reply_is_persisted [of
        "\<lparr>message = JString (u16 ''hi''), sessionId = JUndefined\<rparr>" "u16 ''hi''"
        "u16 ''c1''" empty_store example_runtime
        "\<lparr>conversationId = u16 ''c1'', sender = u16 ''user'', msg_text = u16 ''hi'',
             timestamp = 1\<rparr>"
        "\<lparr>conversationId = u16 ''c1'', sender = u16 ''ai'',
             msg_text = u16 ''Sorry, something went wrong. Please try again.'',
             timestamp = 2\<rparr>" support_config failing_genAI "ApiError (u16 ''unavailable'')"]
      hi_valid c1_fresh
    by (simp add: fb example_runtime_def failing_genAI_def empty_store_def)
  show ?thesis using a b by simp
qed

section \<open>Retrieval of the history\<close>

text \<open>
  C5, as stated, answers 200 whenever \<open>sessionId\<close> is present and a string: it fails
  for the empty string, which the test \<open>!sessionId\<close> rejects with 400.
\<close>

theorem empty_session_query_is_rejected:
  "typeof (JString []) = T_string
   \<and> get_chat_history example_store (JString []) =
       \<lparr>status = 400, body = ErrorBody (u16 ''sessionId is required.'')\<rparr>"
  by (simp add: get_chat_history_def)

text \<open>
  C5, amended: a \<open>sessionId\<close> that is missing, is not a string or is the empty string is
  answered with 400. Any other \<open>sessionId\<close> is answered with 200 and all the messages of
  that conversation, none left out, in ascending order of timestamp; when no conversation
  has this identifier the list is empty.
\<close>

theorem history_of_session:
  "(sid = JUndefined \<or> typeof sid \<noteq> T_string \<or> sid = JString [] \<longrightarrow>
      get_chat_history st sid =
        \<lparr>status = 400, body = ErrorBody (u16 ''sessionId is required.'')\<rparr>)
   \<and> (sid = JString s \<and> s \<noteq> [] \<longrightarrow>
        (\<exists>ms. get_chat_history st sid = \<lparr>status = 200, body = MessagesBody ms\<rparr>
           \<and> sorted (map timestamp ms)
           \<and> mset ms = mset (filter (\<lambda>m. conversationId m = s) (messages st))
           \<and> (store_ok st \<and> s \<notin> conversation_ids st \<longrightarrow> ms = [])))"
proof (intro conjI impI)
  assume "sid = JUndefined \<or> typeof sid \<noteq> T_string \<or> sid = JString []"
  then show "get_chat_history st sid =
        \<lparr>status = 400, body = ErrorBody (u16 ''sessionId is required.'')\<rparr>"
    by (auto simp: get_chat_history_def)
next
  assume a: "sid = JString s \<and> s \<noteq> []"
  then have "get_chat_history st sid =
      \<lparr>status = 200, body = MessagesBody (message_findMany st s None)\<rparr>"
    by (simp add: get_chat_history_def)
  then show "\<exists>ms. get_chat_history st sid = \<lparr>status = 200, body = MessagesBody ms\<rparr>
           \<and> sorted (map timestamp ms)
           \<and> mset ms = mset (filter (\<lambda>m. conversationId m = s) (messages st))
           \<and> (store_ok st \<and> s \<notin> conversation_ids st \<longrightarrow> ms = [])"
    using findMany_all_sorted findMany_all_mset findMany_unknown by blast
qed

theorem history_of_session_witness:
  "get_chat_history example_store JUndefined =
     \<lparr>status = 400, body = ErrorBody (u16 ''sessionId is required.'')\<rparr>
   \<and> get_chat_history example_store (JArray [JString (u16 ''c0'')]) =
     \<lparr>status = 400, body = ErrorBody (u16 ''sessionId is required.'')\<rparr>
   \<and> get_chat_history example_store (JString (u16 ''c0'')) =
     \<lparr>status = 200, body = MessagesBody (messages example_store)\<rparr>
   \<and> get_chat_history example_store (JString (u16 ''zz'')) =
     \<lparr>status = 200, body = MessagesBody []\<rparr>"
proof -
  have a: "get_chat_history example_store JUndefined =
     \<lparr>status = 400, body = ErrorBody (u16 ''sessionId is required.'')\<rparr>"
    using history_of_session [of JUndefined example_store] by simp
  have b: "get_chat_history example_store (JArray [JString (u16 ''c0'')]) =
     \<lparr>status = 400, body = ErrorBody (u16 ''sessionId is required.'')\<rparr>"
    using history_of_session [of "JArray [JString (u16 ''c0'')]" example_store] by simp
  have c: "get_chat_history example_store (JString (u16 ''c0'')) =
     \<lparr>status = 200, body = MessagesBody (messages example_store)\<rparr>"
    using c0_not_empty
    by (simp add: get_chat_history_def message_findMany_def example_store_def)
  obtain ms where ms: "get_chat_history example_store (JString (u16 ''zz'')) =
      \<lparr>status = 200, body = MessagesBody ms\<rparr>" and e: "ms = []"
    using history_of_session [of "JString (u16 ''zz'')" example_store "u16 ''zz''"]
      zz_unknown example_store_ok by auto
  show ?thesis using a b c ms e by simp
qed

section \<open>The reply generator\<close>

text \<open>
  C4. The reply generator never throws: for every API and every history it returns a
  string. When the call of the API throws, the string is the error fallback of the
  backend; when the call returns no text, it is the other fallback; otherwise it is the
  text returned. In each of the three backends the two fallbacks are different strings.
\<close>

theorem reply_generator_never_throws:
  "generateReply cfg genAI history =
     Inr (case genAI (build_request cfg history) of
            Inl err \<Rightarrow> error_fallback cfg
          | Inr None \<Rightarrow> no_text_fallback cfg
          | Inr (Some t) \<Rightarrow> t)
   \<and> generateSupportReply = generateReply support_config
   \<and> generateGeminiReply_000 = generateReply gemini_000_config
   \<and> generateGeminiReply_001 = generateReply gemini_001_config
   \<and> error_fallback support_config \<noteq> no_text_fallback support_config
   \<and> error_fallback gemini_000_config \<noteq> no_text_fallback gemini_000_config
   \<and> error_fallback gemini_001_config \<noteq> no_text_fallback gemini_001_config"
proof -
  have "error_fallback support_config \<noteq> no_text_fallback support_config"
    by (simp add: support_config_def u16_def)
  moreover have "error_fallback gemini_000_config \<noteq> no_text_fallback gemini_000_config"
    by (simp add: gemini_000_config_def u16_def)
  moreover have "error_fallback gemini_001_config \<noteq> no_text_fallback gemini_001_config"
    by (simp add: gemini_001_config_def u16_def)
  ultimately show ?thesis
    by (simp add: generateReply_result generateSupportReply_def generateGeminiReply_000_def
        generateGeminiReply_001_def)
qed

text \<open>
  C8, as stated, renders every history entry as one line: it fails for a text that holds
  a line break. The text is copied into the prompt unchanged, so the one message
  "a", line break, "Support: b" of the user (a message the handler accepts) fills two
  lines, the second of which reads like a reply, and the prompt that is sent is the
  prompt of the two messages "a" of the user and "b" of the agent.
\<close>

theorem line_break_in_text_spans_lines:
  "trim (msg_text two_line_row) = msg_text two_line_row
   \<and> length (msg_text two_line_row) = 12
   \<and> split_lines (conversationText support_config [two_line_row]) =
       [u16 ''Customer: a'', u16 ''Support: b'']
   \<and> generateSupportReply echo_prompt [two_line_row] =
       generateSupportReply echo_prompt two_rows"
  by (simp add: two_line_row_def two_rows_def conversationText_def generateSupportReply_def
      generateReply_def try_catch_def build_request_def prompt_def echo_prompt_def
      support_config_def trim_def is_ws_def u16_def nl_def)

text \<open>
  C8, amended. Whatever the API does, the reply generator answers from what the API
  returns for one request: the request that names the model "gemini-2.5-flash" and holds,
  in the role "user", one prompt. The prompt is the instructions of the backend, then
  its FAQ text unchanged, then the heading "Conversation:", then the history, oldest
  entry first, each entry as its label, a colon and a blank, the text of the entry
  unchanged and a line break. The label is the label of the user when the sender is
  "user" and the other label for every other sender; the labels are "Customer" and
  "Support" in \<open>server.ts\<close>, "User" and "Agent" in the two other backends. When no text of
  the history (and no label) holds a line break, the lines of the rendered history are
  the entries, one line each, in the order of the history.
\<close>

theorem prompt_submitted:
  "generateReply cfg genAI history =
     Inr (case genAI
                 \<lparr>model = u16 ''gemini-2.5-flash'',
                  contents =
                    [\<lparr>role = u16 ''user'',
                      parts =
                        [preamble cfg @ faq cfg @ nl @ nl @ u16 ''Conversation:'' @ nl
                         @ (if history = [] then nl
                            else concat
                                   (map (\<lambda>m. (if sender m = u16 ''user'' then user_label cfg
                                               else other_label cfg)
                                              @ u16 '': '' @ msg_text m @ nl)
                                      history))]\<rparr>]\<rparr> of
            Inl err \<Rightarrow> error_fallback cfg
          | Inr None \<Rightarrow> no_text_fallback cfg
          | Inr (Some t) \<Rightarrow> t)
   \<and> ((\<forall>m \<in> set history. 0x000A \<notin> set (msg_text m))
        \<and> 0x000A \<notin> set (user_label cfg) \<and> 0x000A \<notin> set (other_label cfg) \<longrightarrow>
        split_lines
          (concat
             (map (\<lambda>m. (if sender m = u16 ''user'' then user_label cfg else other_label cfg)
                        @ u16 '': '' @ msg_text m @ nl)
                history)) =
        map (\<lambda>m. (if sender m = u16 ''user'' then user_label cfg else other_label cfg)
                  @ u16 '': '' @ msg_text m)
          history @ [[]])
   \<and> generateSupportReply = generateReply support_config
   \<and> preamble support_config = support_preamble
   \<and> faq support_config = support_faq
   \<and> user_label support_config = u16 ''Customer''
   \<and> other_label support_config = u16 ''Support''
   \<and> generateGeminiReply_000 = generateReply gemini_000_config
   \<and> preamble gemini_000_config = gemini_000_preamble
   \<and> faq gemini_000_config = gemini_000_faq
   \<and> user_label gemini_000_config = u16 ''User''
   \<and> other_label gemini_000_config = u16 ''Agent''
   \<and> generateGeminiReply_001 = generateReply gemini_001_config
   \<and> preamble gemini_001_config = gemini_001_preamble
   \<and> faq gemini_001_config = gemini_001_faq
   \<and> user_label gemini_001_config = u16 ''User''
   \<and> other_label gemini_001_config = u16 ''Agent''"
proof -
  let ?line = "\<lambda>m. (if sender m = u16 ''user'' then user_label cfg else other_label cfg)
                    @ u16 '': '' @ msg_text m"
  have rendered: "conversationText cfg history @ nl =
          (if history = [] then nl else concat (map (\<lambda>m. ?line m @ nl) history))"
  proof (cases "history = []")
    case True
    then show ?thesis by (simp add: conversationText_def)
  next
    case False
    then have "map ?line history \<noteq> []" by simp
    then have "join nl (map ?line history) @ nl
                 = concat (map (\<lambda>x. x @ nl) (map ?line history))"
      by (rule join_append_sep)
    with False show ?thesis by (simp add: conversationText_def comp_def)
  qed
  have request: "build_request cfg history =
     \<lparr>model = u16 ''gemini-2.5-flash'',
      contents =
        [\<lparr>role = u16 ''user'',
          parts =
            [preamble cfg @ faq cfg @ nl @ nl @ u16 ''Conversation:'' @ nl
             @ (if history = [] then nl else concat (map (\<lambda>m. ?line m @ nl) history))]\<rparr>]\<rparr>"
    using rendered by (simp add: build_request_def prompt_def)
  have submitted: "generateReply cfg genAI history =
     Inr (case genAI
                 \<lparr>model = u16 ''gemini-2.5-flash'',
                  contents =
                    [\<lparr>role = u16 ''user'',
                      parts =
                        [preamble cfg @ faq cfg @ nl @ nl @ u16 ''Conversation:'' @ nl
                         @ (if history = [] then nl
                            else concat (map (\<lambda>m. ?line m @ nl) history))]\<rparr>]\<rparr> of
            Inl err \<Rightarrow> error_fallback cfg
          | Inr None \<Rightarrow> no_text_fallback cfg
          | Inr (Some t) \<Rightarrow> t)"
    unfolding request [symmetric] by (rule generateReply_result)
  have lines: "split_lines (concat (map (\<lambda>m. ?line m @ nl) history)) = map ?line history @ [[]]"
    if "\<forall>m \<in> set history. 0x000A \<notin> set (msg_text m)"
      and "0x000A \<notin> set (user_label cfg)" and "0x000A \<notin> set (other_label cfg)"
  proof -
    have "\<forall>l \<in> set (map ?line history). 0x000A \<notin> set l"
      using that colon_blank_no_nl by auto
    then have "split_lines (concat (map (\<lambda>l. l @ nl) (map ?line history)))
                 = map ?line history @ [[]]"
      by (rule split_lines_concat)
    then show ?thesis by (simp add: comp_def)
  qed
  show ?thesis
    using submitted lines
    by (simp add: generateSupportReply_def generateGeminiReply_000_def
        generateGeminiReply_001_def support_config_def gemini_000_config_def
        gemini_001_config_def)
qed

text \<open>
  The two messages of the example store: an API that answers with the name of the model
  is answered "gemini-2.5-flash", an API that answers with the prompt shows the whole
  prompt, and the rendered history has the two lines and the empty line after the last
  line break.
\<close>

theorem prompt_submitted_witness:
  "generateSupportReply echo_model (messages example_store) = Inr (u16 ''gemini-2.5-flash'')
   \<and> generateSupportReply echo_prompt (messages example_store) =
       Inr (support_preamble @ support_faq @ nl @ nl @ u16 ''Conversation:'' @ nl
            @ u16 ''Customer: hi'' @ nl @ u16 ''Support: hello'' @ nl)
   \<and> split_lines (u16 ''Customer: hi'' @ nl @ u16 ''Support: hello'' @ nl) =
       [u16 ''Customer: hi'', u16 ''Support: hello'', []]"
proof -
  have a: "generateSupportReply echo_model (messages example_store)
             = Inr (u16 ''gemini-2.5-flash'')"
    using prompt_submitted [of support_config echo_model "messages example_store"]
    by (simp add: echo_model_def generateSupportReply_def)
  have b: "generateSupportReply echo_prompt (messages example_store) =
       Inr (support_preamble @ support_faq @ nl @ nl @ u16 ''Conversation:'' @ nl
            @ u16 ''Customer: hi'' @ nl @ u16 ''Support: hello'' @ nl)"
    using prompt_submitted [of support_config echo_prompt "messages example_store"]
    by (simp add: echo_prompt_def example_store_def generateSupportReply_def
        support_config_def u16_def)
  have c: "split_lines (u16 ''Customer: hi'' @ nl @ u16 ''Support: hello'' @ nl) =
       [u16 ''Customer: hi'', u16 ''Support: hello'', []]"
    using prompt_submitted [of support_config echo_prompt "messages example_store"]
    by (simp add: example_store_def support_config_def u16_def nl_def)
  show ?thesis using a b c by simp
qed

end
